theory Spec2Isabelle
  imports Complex_Main "HOL-Library.Char_ord" "HOL-Library.List_Lexorder"
begin

section \<open>JavaScript values used by the route handlers\<close>

text \<open>
  The handlers of \<^verbatim>\<open>routes/productRoutes.js\<close> work on query strings, JSON bodies and
  JavaScript numbers. A number is modelled as an exact real, an infinity or NaN: the
  rounding and the overflow of IEEE doubles are not modelled, so \<open>Fin x\<close> stands for
  the double nearest to \<open>x\<close>. Strings are byte strings; every character class below
  lists its ASCII members.
\<close>

datatype jsnum = NaN | NegInf | Fin real | PosInf

text \<open>The relational operator \<^verbatim>\<open><\<close> on numbers: false as soon as one side is NaN.\<close>

fun js_less :: "jsnum \<Rightarrow> jsnum \<Rightarrow> bool" where
  "js_less NaN _ = False"
| "js_less _ NaN = False"
| "js_less NegInf NegInf = False"
| "js_less NegInf _ = True"
| "js_less (Fin x) NegInf = False"
| "js_less (Fin x) (Fin y) = (x < y)"
| "js_less (Fin x) PosInf = True"
| "js_less PosInf _ = False"

text \<open>\<^verbatim>\<open>a <= b\<close> and \<^verbatim>\<open>a >= b\<close>; again false when one side is NaN.\<close>

fun js_le :: "jsnum \<Rightarrow> jsnum \<Rightarrow> bool" where
  "js_le NaN _ = False"
| "js_le _ NaN = False"
| "js_le a b = (if js_less b a then False else True)"

definition Math_max :: "jsnum \<Rightarrow> jsnum \<Rightarrow> jsnum" where
  "Math_max a b = (if a = NaN then NaN else if b = NaN then NaN
                   else if js_less a b then b else a)"

definition Math_min :: "jsnum \<Rightarrow> jsnum \<Rightarrow> jsnum" where
  "Math_min a b = (if a = NaN then NaN else if b = NaN then NaN
                   else if js_less b a then b else a)"

text \<open>Subtraction and multiplication of numbers, with the IEEE rules for NaN and the infinities.\<close>

fun js_sub :: "jsnum \<Rightarrow> jsnum \<Rightarrow> jsnum" where
  "js_sub NaN _ = NaN"
| "js_sub _ NaN = NaN"
| "js_sub (Fin x) (Fin y) = Fin (x - y)"
| "js_sub (Fin x) PosInf = NegInf"
| "js_sub (Fin x) NegInf = PosInf"
| "js_sub PosInf PosInf = NaN"
| "js_sub PosInf _ = PosInf"
| "js_sub NegInf NegInf = NaN"
| "js_sub NegInf _ = NegInf"

fun js_sign :: "jsnum \<Rightarrow> int" where
  "js_sign NaN = 0"
| "js_sign NegInf = - 1"
| "js_sign PosInf = 1"
| "js_sign (Fin x) = (if x < 0 then - 1 else if x = 0 then 0 else 1)"

fun js_mul :: "jsnum \<Rightarrow> jsnum \<Rightarrow> jsnum" where
  "js_mul NaN _ = NaN"
| "js_mul _ NaN = NaN"
| "js_mul (Fin x) (Fin y) = Fin (x * y)"
| "js_mul a b = (let s = js_sign a * js_sign b
                 in if s = 0 then NaN else if s < 0 then NegInf else PosInf)"

subsection \<open>Strings: white space, trim, digits\<close>

text \<open>
  The white space that \<^verbatim>\<open>String.prototype.trim\<close>, \<^verbatim>\<open>parseInt\<close> and \<^verbatim>\<open>parseFloat\<close> strip:
  tab, line feed, vertical tab, form feed, carriage return and space.
\<close>

definition isWhiteSpace :: "char \<Rightarrow> bool" where
  "isWhiteSpace c = (c \<in> set [CHR 0x09, CHR 0x0A, CHR 0x0B, CHR 0x0C, CHR 0x0D, CHR 0x20])"

definition trimStart :: "string \<Rightarrow> string" where
  "trimStart s = dropWhile isWhiteSpace s"

definition trim :: "string \<Rightarrow> string" where
  "trim s = rev (dropWhile isWhiteSpace (rev (dropWhile isWhiteSpace s)))"

text \<open>The value of a character as a digit of a radix up to 36; 36 for any other character.\<close>

definition digitValue :: "char \<Rightarrow> nat" where
  "digitValue c =
     (let n = (of_char c :: nat)
      in if 48 \<le> n \<and> n \<le> 57 then n - 48
         else if 97 \<le> n \<and> n \<le> 122 then n - 87
         else if 65 \<le> n \<and> n \<le> 90 then n - 55
         else 36)"

definition isRadixDigit :: "nat \<Rightarrow> char \<Rightarrow> bool" where
  "isRadixDigit radix c = (digitValue c < radix)"

definition digitsValue :: "nat \<Rightarrow> string \<Rightarrow> nat" where
  "digitsValue radix ds = foldl (\<lambda>a c. a * radix + digitValue c) 0 ds"

text \<open>An optional sign: the factor it stands for, and the rest of the string.\<close>

fun stripSign :: "string \<Rightarrow> int \<times> string" where
  "stripSign [] = (1, [])"
| "stripSign (c # cs) =
     (if c = CHR ''-'' then (- 1, cs) else if c = CHR ''+'' then (1, cs) else (1, c # cs))"

text \<open>A hexadecimal prefix \<^verbatim>\<open>0x\<close> or \<^verbatim>\<open>0X\<close>: the radix to read in, and the rest.\<close>

fun stripRadixPrefix :: "string \<Rightarrow> nat \<times> string" where
  "stripRadixPrefix (a # b # cs) =
     (if a = CHR ''0'' \<and> (b = CHR ''x'' \<or> b = CHR ''X'') then (16, cs) else (10, a # b # cs))"
| "stripRadixPrefix cs = (10, cs)"

text \<open>
  \<^verbatim>\<open>parseInt(string)\<close> with no radix argument: leading white space is skipped, a sign
  and a hexadecimal prefix are read, then the longest run of digits; no digit gives NaN.
  Anything after the digits is ignored. The result is the exact integer, which is what
  the code computes up to \<open>2\<^sup>5\<^sup>3\<close>.
\<close>

definition parseInt :: "string \<Rightarrow> jsnum" where
  "parseInt s =
     (let (sign, s2) = stripSign (trimStart s);
          (radix, s3) = stripRadixPrefix s2;
          ds = takeWhile (isRadixDigit radix) s3
      in if ds = [] then NaN else Fin (of_int (sign * int (digitsValue radix ds))))"

section \<open>Pagination of the listing and the search endpoints\<close>

text \<open>
  Both handlers destructure \<^verbatim>\<open>req.query\<close> with the defaults \<^verbatim>\<open>page = 1\<close> and
  \<^verbatim>\<open>limit = 10\<close>; a default applies when the parameter is missing. \<^verbatim>\<open>parseInt\<close> reads the
  default through its decimal text.
\<close>

definition rawOrDefault :: "string \<Rightarrow> string option \<Rightarrow> string" where
  "rawOrDefault d raw = (case raw of None \<Rightarrow> d | Some s \<Rightarrow> s)"

text \<open>Listing: \<^verbatim>\<open>pageNum = Math.max(1, parseInt(page))\<close>.\<close>

definition listing_pageNum :: "string option \<Rightarrow> jsnum" where
  "listing_pageNum page = Math_max (Fin 1) (parseInt (rawOrDefault ''1'' page))"

text \<open>Listing: \<^verbatim>\<open>limitNum = Math.max(1, Math.min(parseInt(limit), 100))\<close>.\<close>

definition listing_limitNum :: "string option \<Rightarrow> jsnum" where
  "listing_limitNum limit =
     Math_max (Fin 1) (Math_min (parseInt (rawOrDefault ''10'' limit)) (Fin 100))"

text \<open>Listing and search: \<^verbatim>\<open>skip = (pageNum - 1) * limitNum\<close>.\<close>

definition skip_of :: "jsnum \<Rightarrow> jsnum \<Rightarrow> jsnum" where
  "skip_of pageNum limitNum = js_mul (js_sub pageNum (Fin 1)) limitNum"

definition listing_skip :: "string option \<Rightarrow> string option \<Rightarrow> jsnum" where
  "listing_skip page limit = skip_of (listing_pageNum page) (listing_limitNum limit)"

text \<open>Search: \<^verbatim>\<open>pageNum = Math.max(1, parseInt(page))\<close> and \<^verbatim>\<open>limitNum = Math.max(1, parseInt(limit))\<close>.\<close>

definition search_pageNum :: "string option \<Rightarrow> jsnum" where
  "search_pageNum page = Math_max (Fin 1) (parseInt (rawOrDefault ''1'' page))"

definition search_limitNum :: "string option \<Rightarrow> jsnum" where
  "search_limitNum limit = Math_max (Fin 1) (parseInt (rawOrDefault ''10'' limit))"

section \<open>The filter of the listing endpoint\<close>

subsection \<open>parseFloat\<close>

text \<open>An exponent part \<^verbatim>\<open>e\<close> or \<^verbatim>\<open>E\<close>, an optional sign and at least one digit; 0 when there is none.\<close>

fun exponentOf :: "string \<Rightarrow> int" where
  "exponentOf [] = 0"
| "exponentOf (c # cs) =
     (if c = CHR ''e'' \<or> c = CHR ''E''
      then (let (sign, r) = stripSign cs; ds = takeWhile (isRadixDigit 10) r
            in if ds = [] then 0 else sign * int (digitsValue 10 ds))
      else 0)"

definition pow10 :: "int \<Rightarrow> real" where
  "pow10 e = (if 0 \<le> e then 10 ^ nat e else 1 / 10 ^ nat (- e))"

text \<open>The digits after a decimal point, and what follows them; no point, no digits.\<close>

fun fractionOf :: "string \<Rightarrow> string \<times> string" where
  "fractionOf [] = ([], [])"
| "fractionOf (c # cs) =
     (if c = CHR ''.'' then (takeWhile (isRadixDigit 10) cs, dropWhile (isRadixDigit 10) cs)
      else ([], c # cs))"

text \<open>
  \<^verbatim>\<open>parseFloat(string)\<close>: leading white space is skipped, then the longest prefix that is a
  decimal literal is read: a sign, then \<^verbatim>\<open>Infinity\<close> or digits with an optional fraction
  and exponent. No such prefix gives NaN. The result is the exact value of the literal:
  where the literal has more digits than a double holds, the code reads the nearest
  double and the model is more precise than the code; nothing below depends on the
  value of such a literal.
\<close>

definition parseFloat :: "string \<Rightarrow> jsnum" where
  "parseFloat s =
     (let (sign, s2) = stripSign (trimStart s)
      in if take 8 s2 = ''Infinity'' then (if sign < 0 then NegInf else PosInf)
         else
           (let ip = takeWhile (isRadixDigit 10) s2;
                (fp, r) = fractionOf (dropWhile (isRadixDigit 10) s2)
            in if ip = [] \<and> fp = [] then NaN
               else Fin (of_int sign
                         * (of_nat (digitsValue 10 ip) + of_nat (digitsValue 10 fp) / 10 ^ length fp)
                         * pow10 (exponentOf r))))"

subsection \<open>Regular expressions\<close>

text \<open>
  The category filter is a \<^verbatim>\<open>RegExp\<close> built from the request's text. The fragment of the
  pattern language interpreted here is: the assertions \<^verbatim>\<open>^\<close> and \<^verbatim>\<open>$\<close>, the wild card
  \<^verbatim>\<open>.\<close> and characters that stand for themselves. A pattern with any other syntax
  character is outside the fragment, and \<open>parseAtoms\<close> gives \<open>None\<close> for it. Matching
  follows ECMAScript without the multiline flag: \<^verbatim>\<open>^\<close> holds at the start of the input
  only, \<^verbatim>\<open>$\<close> at its end only, and \<^verbatim>\<open>.\<close> matches any character but a line terminator.
\<close>

record regexp =
  source :: string
  flags :: string

datatype atom = BOL | EOL | AnyChar | Lit char

definition isSyntaxChar :: "char \<Rightarrow> bool" where
  "isSyntaxChar c = (c \<in> set [CHR ''^'', CHR ''$'', CHR 0x5C, CHR ''.'', CHR ''*'', CHR ''+'',
     CHR ''?'', CHR ''('', CHR '')'', CHR ''['', CHR '']'', CHR ''{'', CHR ''}'', CHR ''|''])"

fun parseAtoms :: "string \<Rightarrow> atom list option" where
  "parseAtoms [] = Some []"
| "parseAtoms (c # cs) =
     (if c = CHR ''^'' then map_option (Cons BOL) (parseAtoms cs)
      else if c = CHR ''$'' then map_option (Cons EOL) (parseAtoms cs)
      else if c = CHR ''.'' then map_option (Cons AnyChar) (parseAtoms cs)
      else if isSyntaxChar c then None
      else map_option (Cons (Lit c)) (parseAtoms cs))"

definition isLineTerminator :: "char \<Rightarrow> bool" where
  "isLineTerminator c = (c = CHR 0x0A \<or> c = CHR 0x0D)"

text \<open>Case folding under the flag \<^verbatim>\<open>i\<close>: a lower-case letter is compared as its capital.\<close>

definition toUpper :: "char \<Rightarrow> char" where
  "toUpper c = (let n = (of_char c :: nat) in if 97 \<le> n \<and> n \<le> 122 then char_of (n - 32) else c)"

definition canonicalize :: "bool \<Rightarrow> char \<Rightarrow> char" where
  "canonicalize ignoreCase c = (if ignoreCase then toUpper c else c)"

text \<open>
  \<open>matchHere i as atStart s\<close>: the atoms \<open>as\<close> match a prefix of the rest \<open>s\<close> of the
  input; \<open>atStart\<close> tells whether \<open>s\<close> is the whole input.
\<close>

fun matchHere :: "bool \<Rightarrow> atom list \<Rightarrow> bool \<Rightarrow> string \<Rightarrow> bool" where
  "matchHere i [] atStart s = True"
| "matchHere i (BOL # as) atStart s = (atStart \<and> matchHere i as atStart s)"
| "matchHere i (EOL # as) atStart s = (s = [] \<and> matchHere i as atStart s)"
| "matchHere i (AnyChar # as) atStart [] = False"
| "matchHere i (AnyChar # as) atStart (c # cs) =
     (if isLineTerminator c then False else matchHere i as False cs)"
| "matchHere i (Lit a # as) atStart [] = False"
| "matchHere i (Lit a # as) atStart (c # cs) =
     (canonicalize i a = canonicalize i c \<and> matchHere i as False cs)"

text \<open>A regular expression is searched for at every position of the input.\<close>

fun searchFrom :: "bool \<Rightarrow> atom list \<Rightarrow> bool \<Rightarrow> string \<Rightarrow> bool" where
  "searchFrom i as atStart [] = matchHere i as atStart []"
| "searchFrom i as atStart (c # cs) =
     (matchHere i as atStart (c # cs) \<or> searchFrom i as False cs)"

definition regex_test :: "regexp \<Rightarrow> string \<Rightarrow> bool option" where
  "regex_test re s =
     map_option (\<lambda>as. searchFrom (CHR ''i'' \<in> set (flags re)) as True s) (parseAtoms (source re))"

subsection \<open>Products and the filter object\<close>

text \<open>The schema of \<^verbatim>\<open>models/products\<close>, with the identity and the two timestamps the store adds.\<close>

record product =
  pid :: string
  name :: string
  description :: string
  price :: real
  category :: string
  inStock :: bool
  createdAt :: nat
  updatedAt :: nat

text \<open>The query parameters the listing handler destructures; \<open>None\<close> is \<^verbatim>\<open>undefined\<close>.\<close>

record listing_query =
  q_category :: "string option"
  q_inStock :: "string option"
  q_minPrice :: "string option"
  q_maxPrice :: "string option"
  q_page :: "string option"
  q_limit :: "string option"
  q_sort :: "string option"
  q_fields :: "string option"

record price_range =
  gte :: "jsnum option"
  lte :: "jsnum option"

record product_filter =
  f_category :: "regexp option"
  f_inStock :: "bool option"
  f_price :: "price_range option"

text \<open>A query parameter in a condition: a missing parameter and the empty string are falsy.\<close>

definition truthy :: "string option \<Rightarrow> bool" where
  "truthy raw = (case raw of None \<Rightarrow> False | Some s \<Rightarrow> (if s = [] then False else True))"

text \<open>
  \<^verbatim>\<open>if (category && category.trim() !== '')
      filter.category = { $regex: new RegExp(`^${cleanCategory}$`, 'i') }\<close>

  \<open>build_category\<close> gives the source and the flags handed to the constructor. The
  constructor throws on an ill-formed source; \<open>regexp_status\<close> below tells when, and
  \<open>listing_route\<close> answers the throw as the handler's \<^verbatim>\<open>catch\<close> block does.
\<close>

definition build_category :: "string option \<Rightarrow> regexp option" where
  "build_category raw =
     (case raw of
        None \<Rightarrow> None
      | Some c \<Rightarrow>
          if truthy (Some c) \<and> trim c \<noteq> []
          then Some \<lparr>source = ''^'' @ trim c @ ''$'', flags = ''i''\<rparr>
          else None)"

text \<open>\<^verbatim>\<open>if (inStock !== undefined) filter.inStock = inStock === 'true'\<close>\<close>

definition build_inStock :: "string option \<Rightarrow> bool option" where
  "build_inStock raw = map_option (\<lambda>s. s = ''true'') raw"

text \<open>\<^verbatim>\<open>if (minPrice) filter.price.$gte = parseFloat(minPrice)\<close>, and the same for \<^verbatim>\<open>$lte\<close>.\<close>

definition build_bound :: "string option \<Rightarrow> jsnum option" where
  "build_bound raw =
     (case raw of None \<Rightarrow> None | Some s \<Rightarrow> if truthy (Some s) then Some (parseFloat s) else None)"

text \<open>\<^verbatim>\<open>if (minPrice || maxPrice) { filter.price = {}; ... }\<close>\<close>

definition build_price :: "string option \<Rightarrow> string option \<Rightarrow> price_range option" where
  "build_price minPrice maxPrice =
     (if truthy minPrice \<or> truthy maxPrice
      then Some \<lparr>gte = build_bound minPrice, lte = build_bound maxPrice\<rparr>
      else None)"

definition build_filter :: "listing_query \<Rightarrow> product_filter" where
  "build_filter q =
     \<lparr>f_category = build_category (q_category q),
      f_inStock = build_inStock (q_inStock q),
      f_price = build_price (q_minPrice q) (q_maxPrice q)\<rparr>"

subsection \<open>What the store does with the filter\<close>

text \<open>
  The document store selects the products that satisfy every field of the filter:
  \<^verbatim>\<open>$regex\<close> tests the stored category, a boolean is compared for equality, \<^verbatim>\<open>$gte\<close> and
  \<^verbatim>\<open>$lte\<close> compare the stored price with the bound. \<open>None\<close> says that the store gives no
  verdict on the product: the pattern is outside the interpreted fragment, or a bound is
  NaN, which the store's cast of the filter rejects before any product is compared (see
  \<open>cast_filter\<close> below).
\<close>

definition price_in_range :: "price_range \<Rightarrow> product \<Rightarrow> bool option" where
  "price_in_range r p =
     (if gte r = Some NaN \<or> lte r = Some NaN then None
      else Some ((case gte r of None \<Rightarrow> True | Some b \<Rightarrow> js_le b (Fin (price p))) \<and>
                 (case lte r of None \<Rightarrow> True | Some b \<Rightarrow> js_le (Fin (price p)) b)))"

definition price_matches :: "product_filter \<Rightarrow> product \<Rightarrow> bool option" where
  "price_matches f p = (case f_price f of None \<Rightarrow> Some True | Some r \<Rightarrow> price_in_range r p)"

definition inStock_matches :: "product_filter \<Rightarrow> product \<Rightarrow> bool" where
  "inStock_matches f p = (case f_inStock f of None \<Rightarrow> True | Some b \<Rightarrow> inStock p = b)"

definition category_matches :: "product_filter \<Rightarrow> product \<Rightarrow> bool option" where
  "category_matches f p =
     (case f_category f of None \<Rightarrow> Some True | Some re \<Rightarrow> regex_test re (category p))"

definition filter_matches :: "product_filter \<Rightarrow> product \<Rightarrow> bool option" where
  "filter_matches f p =
     (case (category_matches f p, price_matches f p) of
        (Some c, Some r) \<Rightarrow> Some (c \<and> inStock_matches f p \<and> r)
      | _ \<Rightarrow> None)"

subsection \<open>Sorting, field selection and the query the listing handler issues\<close>

text \<open>
  \<^verbatim>\<open>sort = 'name'\<close> by default; a leading \<^verbatim>\<open>-\<close> asks for descending order. The field
  name is passed on as it is.
\<close>

definition build_sort :: "string option \<Rightarrow> (string \<times> int) option" where
  "build_sort raw =
     (case rawOrDefault ''name'' raw of
        [] \<Rightarrow> None
      | c # cs \<Rightarrow> if c = CHR ''-'' then Some (cs, - 1) else Some (c # cs, 1))"

fun split_comma :: "string \<Rightarrow> string list" where
  "split_comma [] = [[]]"
| "split_comma (c # cs) =
     (if c = CHR '','' then [] # split_comma cs
      else (case split_comma cs of [] \<Rightarrow> [[c]] | x # xs \<Rightarrow> (c # x) # xs))"

text \<open>\<^verbatim>\<open>fields.split(',').map(field => field.trim())\<close>, when \<^verbatim>\<open>fields\<close> is supplied and not empty.\<close>

definition build_fields :: "string option \<Rightarrow> string list" where
  "build_fields raw =
     (case raw of None \<Rightarrow> [] | Some s \<Rightarrow> if truthy (Some s) then map trim (split_comma s) else [])"

record listing_plan =
  lp_filter :: product_filter
  lp_pageNum :: jsnum
  lp_limitNum :: jsnum
  lp_skip :: jsnum
  lp_sort :: "(string \<times> int) option"
  lp_fields :: "string list"

definition listing_plan :: "listing_query \<Rightarrow> listing_plan" where
  "listing_plan q =
     \<lparr>lp_filter = build_filter q,
      lp_pageNum = listing_pageNum (q_page q),
      lp_limitNum = listing_limitNum (q_limit q),
      lp_skip = listing_skip (q_page q) (q_limit q),
      lp_sort = build_sort (q_sort q),
      lp_fields = build_fields (q_fields q)\<rparr>"

section \<open>The search endpoint\<close>

text \<open>
  The store's \<^verbatim>\<open>skip\<close> and \<^verbatim>\<open>limit\<close> on a list of matching documents. What the store does
  with a skip or a limit that is not a natural number is not modelled: \<open>None\<close>.
\<close>

definition is_natural :: "real \<Rightarrow> bool" where
  "is_natural x = (0 \<le> x \<and> of_int \<lfloor>x\<rfloor> = x)"

definition window :: "jsnum \<Rightarrow> jsnum \<Rightarrow> 'a list \<Rightarrow> 'a list option" where
  "window skip limit xs =
     (case (skip, limit) of
        (Fin s, Fin l) \<Rightarrow>
          if is_natural s \<and> is_natural l then Some (take (nat \<lfloor>l\<rfloor>) (drop (nat \<lfloor>s\<rfloor>) xs))
          else None
      | _ \<Rightarrow> None)"

text \<open>
  \<^verbatim>\<open>$or: [{ name: { $regex: searchTerm, $options: 'i' } }, { description: ... },
  { category: ... }]\<close>: the term is a pattern searched for in each of the three fields.
\<close>

definition search_matches :: "string \<Rightarrow> product \<Rightarrow> bool option" where
  "search_matches searchTerm p =
     (let re = \<lparr>source = searchTerm, flags = ''i''\<rparr>
      in case (regex_test re (name p), regex_test re (description p), regex_test re (category p)) of
           (Some a, Some b, Some c) \<Rightarrow> Some (a \<or> b \<or> c)
         | _ \<Rightarrow> None)"

record search_info =
  si_query :: string
  si_totalResults :: nat
  si_currentPage :: jsnum
  si_totalPages :: int
  si_hasNext :: bool
  si_hasPrev :: bool

record search_body =
  sb_search :: search_info
  sb_results :: nat
  sb_products :: "product list"

datatype search_response = SearchBadRequest string | SearchOk search_body

text \<open>
  \<^verbatim>\<open>GET /search\<close>. A missing or blank \<^verbatim>\<open>q\<close> is answered with 400. Otherwise the matching
  products are sorted by name, skipped and limited, and counted for the page metadata.
  \<open>None\<close> stands for a request outside the model: a term outside the pattern fragment,
  or a page or limit that is NaN.
\<close>

definition search_route ::
  "string option \<Rightarrow> string option \<Rightarrow> string option \<Rightarrow> product list \<Rightarrow> (nat \<times> search_response) option" where
  "search_route q page limit store =
     (if truthy q \<and> trim (rawOrDefault [] q) \<noteq> []
      then
        (let searchTerm = trim (rawOrDefault [] q);
             pageNum = search_pageNum page;
             limitNum = search_limitNum limit;
             skip = skip_of pageNum limitNum
         in if list_all (\<lambda>p. search_matches searchTerm p \<noteq> None) store
            then
              (let found = sort_key name (filter (\<lambda>p. search_matches searchTerm p = Some True) store)
               in case (window skip limitNum found, pageNum, limitNum) of
                    (Some products, Fin pg, Fin lm) \<Rightarrow>
                      (let totalResults = length found;
                           totalPages = \<lceil>real totalResults / lm\<rceil>
                       in Some (200, SearchOk
                            \<lparr>sb_search =
                               \<lparr>si_query = searchTerm, si_totalResults = totalResults,
                                si_currentPage = pageNum, si_totalPages = totalPages,
                                si_hasNext = (pg < of_int totalPages), si_hasPrev = (1 < pg)\<rparr>,
                             sb_results = length products, sb_products = products\<rparr>))
                  | _ \<Rightarrow> None)
            else None)
      else Some (400, SearchBadRequest ''Search query 'q' is required''))"

section \<open>Statistics\<close>

subsection \<open>The aggregation pipeline over the categories\<close>

text \<open>
  The \<^verbatim>\<open>$group\<close> stage keeps one accumulator per distinct category: \<^verbatim>\<open>$sum: 1\<close> counts the
  documents, \<^verbatim>\<open>$sum\<close>, \<^verbatim>\<open>$avg\<close>, \<^verbatim>\<open>$min\<close> and \<^verbatim>\<open>$max\<close> run over the price, and the two conditional
  sums count the documents in and out of stock. A group is created by the first document
  of its category; groups are kept in the order of that first document.
\<close>

record category_group =
  g_id :: string
  g_count :: nat
  g_averagePrice :: real
  g_totalValue :: real
  g_minPrice :: real
  g_maxPrice :: real
  g_inStockCount :: nat
  g_outOfStockCount :: nat

definition new_group :: "product \<Rightarrow> category_group" where
  "new_group p =
     \<lparr>g_id = category p, g_count = 1, g_averagePrice = price p, g_totalValue = price p,
      g_minPrice = price p, g_maxPrice = price p,
      g_inStockCount = (if inStock p = True then 1 else 0),
      g_outOfStockCount = (if inStock p = False then 1 else 0)\<rparr>"

definition add_to_group :: "product \<Rightarrow> category_group \<Rightarrow> category_group" where
  "add_to_group p g =
     g\<lparr>g_count := g_count g + 1,
       g_averagePrice := (g_totalValue g + price p) / real (g_count g + 1),
       g_totalValue := g_totalValue g + price p,
       g_minPrice := min (g_minPrice g) (price p),
       g_maxPrice := max (g_maxPrice g) (price p),
       g_inStockCount := g_inStockCount g + (if inStock p = True then 1 else 0),
       g_outOfStockCount := g_outOfStockCount g + (if inStock p = False then 1 else 0)\<rparr>"

fun group_step :: "product \<Rightarrow> category_group list \<Rightarrow> category_group list" where
  "group_step p [] = [new_group p]"
| "group_step p (g # gs) =
     (if g_id g = category p then add_to_group p g # gs else g # group_step p gs)"

definition group_by_category :: "product list \<Rightarrow> category_group list" where
  "group_by_category store = foldl (\<lambda>gs p. group_step p gs) [] store"

text \<open>\<^verbatim>\<open>$sort: { count: -1 }\<close>: the groups by count, largest first.\<close>

definition sort_by_count_desc :: "category_group list \<Rightarrow> category_group list" where
  "sort_by_count_desc gs = sort_key (\<lambda>g. - int (g_count g)) gs"

text \<open>
  The operators of the \<^verbatim>\<open>$project\<close> stage. \<^verbatim>\<open>$divide\<close> fails on a zero divisor, and the
  failure aborts the pipeline. \<^verbatim>\<open>$round\<close> to two places rounds a tie to the even neighbour.
\<close>

datatype app_error =
    ValidationError "string list"
  | DuplicateKey string
  | CastError
  | OtherError string

definition mongo_divide :: "real \<Rightarrow> real \<Rightarrow> app_error + real" where
  "mongo_divide a b = (if b = 0 then Inl (OtherError ''can't $divide by zero'') else Inr (a / b))"

definition round_half_even :: "real \<Rightarrow> int" where
  "round_half_even y =
     (let f = \<lfloor>y\<rfloor>; d = y - of_int f
      in if d < 1 / 2 then f else if 1 / 2 < d then f + 1 else if even f then f else f + 1)"

definition mongo_round2 :: "real \<Rightarrow> real" where
  "mongo_round2 x = of_int (round_half_even (x * 100)) / 100"

record category_stat =
  cs_category :: string
  cs_count :: nat
  cs_averagePrice :: real
  cs_totalValue :: real
  cs_minPrice :: real
  cs_maxPrice :: real
  cs_inStockCount :: nat
  cs_outOfStockCount :: nat
  cs_inStockPercentage :: real

definition project_group :: "category_group \<Rightarrow> app_error + category_stat" where
  "project_group g =
     (case mongo_divide (real (g_inStockCount g)) (real (g_count g)) of
        Inl e \<Rightarrow> Inl e
      | Inr ratio \<Rightarrow>
          Inr \<lparr>cs_category = g_id g, cs_count = g_count g,
               cs_averagePrice = mongo_round2 (g_averagePrice g),
               cs_totalValue = mongo_round2 (g_totalValue g),
               cs_minPrice = g_minPrice g, cs_maxPrice = g_maxPrice g,
               cs_inStockCount = g_inStockCount g, cs_outOfStockCount = g_outOfStockCount g,
               cs_inStockPercentage = mongo_round2 (ratio * 100)\<rparr>)"

fun project_all :: "category_group list \<Rightarrow> app_error + category_stat list" where
  "project_all [] = Inr []"
| "project_all (g # gs) =
     (case project_group g of
        Inl e \<Rightarrow> Inl e
      | Inr c \<Rightarrow> (case project_all gs of Inl e \<Rightarrow> Inl e | Inr cs \<Rightarrow> Inr (c # cs)))"

definition categoryStats :: "product list \<Rightarrow> app_error + category_stat list" where
  "categoryStats store = project_all (sort_by_count_desc (group_by_category store))"

subsection \<open>The overall price statistics and the response\<close>

record price_group =
  pg_averagePrice :: real
  pg_minPrice :: real
  pg_maxPrice :: real
  pg_totalInventoryValue :: real

text \<open>Grouping every document under \<^verbatim>\<open>_id: null\<close>: one group, or none when there is no document.\<close>

fun priceStats :: "product list \<Rightarrow> price_group list" where
  "priceStats [] = []"
| "priceStats (p # ps) =
     [\<lparr>pg_averagePrice = sum_list (map price (p # ps)) / real (length (p # ps)),
       pg_minPrice = fold min (map price ps) (price p),
       pg_maxPrice = fold max (map price ps) (price p),
       pg_totalInventoryValue = sum_list (map price (p # ps))\<rparr>]"

text \<open>\<^verbatim>\<open>Math.round\<close> rounds a tie upwards.\<close>

definition Math_round :: "real \<Rightarrow> int" where
  "Math_round x = \<lfloor>x + 1 / 2\<rfloor>"

definition digitChar :: "nat \<Rightarrow> char" where
  "digitChar d = char_of (48 + d)"

fun showNat :: "nat \<Rightarrow> string" where
  "showNat n = (if n < 10 then [digitChar n] else showNat (n div 10) @ [digitChar (n mod 10)])"

text \<open>
  \<^verbatim>\<open>x.toFixed(2)\<close> for a number below \<open>10\<^sup>2\<^sup>1\<close> in magnitude: the nearest multiple of a
  hundredth, the larger one on a tie, written with two decimals.
\<close>

definition toFixed2 :: "real \<Rightarrow> string" where
  "toFixed2 x =
     (let n = nat \<lfloor>\<bar>x\<bar> * 100 + 1 / 2\<rfloor>
      in (if x < 0 then ''-'' else []) @ showNat (n div 100) @ ''.''
         @ [digitChar (n mod 100 div 10), digitChar (n mod 10)])"

datatype percentage = PctNumber real | PctText string

record stats_summary =
  ss_totalProducts :: nat
  ss_inStock :: nat
  ss_outOfStock :: nat
  ss_inStockPercentage :: percentage

record stats_body =
  st_summary :: stats_summary
  st_priceStatistics :: "price_group option"
  st_categories :: "category_stat list"
  st_lastUpdated :: nat

datatype stats_response = StatsOk stats_body | StatsFailed string string

text \<open>The message of an error, as the \<^verbatim>\<open>catch\<close> blocks report it.\<close>

fun error_message :: "app_error \<Rightarrow> string" where
  "error_message (ValidationError msgs) = ''Validation failed''"
| "error_message (DuplicateKey k) = ''duplicate key''"
| "error_message CastError = ''Cast to ObjectId failed''"
| "error_message (OtherError m) = m"

text \<open>
  \<^verbatim>\<open>GET /stats\<close> on the documents of the store, at the time \<open>now\<close>. \<open>None\<close> for
  \<^verbatim>\<open>priceStatistics\<close> is the empty object \<^verbatim>\<open>{}\<close>.
\<close>

definition stats_route :: "nat \<Rightarrow> product list \<Rightarrow> nat \<times> stats_response" where
  "stats_route now store =
     (let totalProducts = length store;
          inStockCount = length (filter (\<lambda>p. inStock p = True) store);
          outOfStockCount = length (filter (\<lambda>p. inStock p = False) store)
      in case categoryStats store of
           Inl e \<Rightarrow> (500, StatsFailed ''Failed to get statistics'' (error_message e))
         | Inr cats \<Rightarrow>
             (200, StatsOk
               \<lparr>st_summary =
                  \<lparr>ss_totalProducts = totalProducts, ss_inStock = inStockCount,
                   ss_outOfStock = outOfStockCount,
                   ss_inStockPercentage =
                     (if 0 < totalProducts
                      then PctText (toFixed2 (real inStockCount / real totalProducts * 100))
                      else PctNumber 0)\<rparr>,
                st_priceStatistics =
                  (case priceStats store of
                     [] \<Rightarrow> None
                   | g # gs \<Rightarrow>
                       Some \<lparr>pg_averagePrice = of_int (Math_round (pg_averagePrice g * 100)) / 100,
                             pg_minPrice = pg_minPrice g, pg_maxPrice = pg_maxPrice g,
                             pg_totalInventoryValue =
                               of_int (Math_round (pg_totalInventoryValue g * 100)) / 100\<rparr>),
                st_categories = cats, st_lastUpdated = now\<rparr>))"

section \<open>Reading, updating and deleting one product\<close>

subsection \<open>The middleware\<close>

text \<open>A JSON value of a request body. A key the body does not have reads as \<^verbatim>\<open>undefined\<close>: \<open>None\<close>.\<close>

datatype json =
    JNull
  | JBool bool
  | JNum real
  | JStr string
  | JArr "json list"
  | JObj "(string \<times> json) list"

type_synonym body = "string \<rightharpoonup> json"

record request_headers =
  x_api_key :: "string option"
  authorization :: "string option"

datatype payload =
    Message string
  | ValidationFailed string "string list"
  | ProductBody product
  | ProductUpdated string product
  | ProductDeleted string product
  | DuplicateField string string
  | ServerError string "string option"

type_synonym response = "nat \<times> payload"

text \<open>\<^verbatim>\<open>a || b\<close> on two optional strings.\<close>

definition js_or :: "string option \<Rightarrow> string option \<Rightarrow> string option" where
  "js_or a b = (if truthy a then a else b)"

text \<open>
  \<^verbatim>\<open>middleware/auth.js\<close>. \<open>env_key\<close> is \<^verbatim>\<open>process.env.API_KEY\<close>. \<open>None\<close> is the call of
  \<^verbatim>\<open>next()\<close>; a response ends the request.
\<close>

definition authenticate :: "string option \<Rightarrow> request_headers \<Rightarrow> response option" where
  "authenticate env_key hs =
     (let apiKey = js_or (x_api_key hs) (authorization hs);
          validApiKey = js_or env_key (Some ''default-secret-key-123'')
      in if truthy apiKey
         then (if apiKey = validApiKey then None else Some (403, Message ''Invalid API key.''))
         else Some (401, Message ''Access denied. No API key provided.''))"

text \<open>
  The rules of \<^verbatim>\<open>middleware/validation.js\<close>, one function per field.
  \<^verbatim>\<open>!name || typeof name !== 'string' || name.trim().length === 0\<close> holds of every value
  but a string that is not blank.
\<close>

definition text_errors :: "string \<Rightarrow> json option \<Rightarrow> string list" where
  "text_errors msg v =
     (case v of
        Some (JStr s) \<Rightarrow> if s = [] \<or> length (trim s) = 0 then [msg] else []
      | _ \<Rightarrow> [msg])"

definition price_errors :: "json option \<Rightarrow> string list" where
  "price_errors v =
     (case v of
        None \<Rightarrow> [''Price is required'']
      | Some JNull \<Rightarrow> [''Price is required'']
      | Some (JNum x) \<Rightarrow> if x < 0 then [''Price must be a positive number''] else []
      | Some _ \<Rightarrow> [''Price must be a positive number''])"

definition inStock_errors :: "json option \<Rightarrow> string list" where
  "inStock_errors v =
     (case v of
        None \<Rightarrow> []
      | Some (JBool b) \<Rightarrow> []
      | Some _ \<Rightarrow> [''inStock must be a boolean value''])"

definition validation_errors :: "body \<Rightarrow> string list" where
  "validation_errors b =
     text_errors ''Name is required and must be a non-empty string'' (b ''name'')
     @ text_errors ''Description is required and must be a non-empty string'' (b ''description'')
     @ price_errors (b ''price'')
     @ text_errors ''Category is required and must be a non-empty string'' (b ''category'')
     @ inStock_errors (b ''inStock'')"

text \<open>\<^verbatim>\<open>if (name) req.body.name = name.trim()\<close>, for a body that passed the rules.\<close>

definition trim_field :: "string \<Rightarrow> body \<Rightarrow> body" where
  "trim_field k b = (case b k of Some (JStr s) \<Rightarrow> b(k \<mapsto> JStr (trim s)) | _ \<Rightarrow> b)"

text \<open>
  \<^verbatim>\<open>validateProduct\<close>: the response 400 with the list of violated rules, or the body with
  its three texts trimmed, handed to the next handler.
\<close>

definition validateProduct :: "body \<Rightarrow> response + body" where
  "validateProduct b =
     (let errors = validation_errors b
      in if 0 < length errors then Inl (400, ValidationFailed ''Validation failed'' errors)
         else Inr (trim_field ''category'' (trim_field ''description'' (trim_field ''name'' b))))"

subsection \<open>The store\<close>

text \<open>
  The store casts the identity of a request to an object id and rejects a text it cannot
  cast with a cast error. The model takes the hexadecimal form of an object id, 24
  hexadecimal digits compared without regard to the case of their letters; a text that
  is shorter than 12 characters, such as \<^verbatim>\<open>abc\<close>, is rejected by every version of the store.
\<close>

definition isObjectId :: "string \<Rightarrow> bool" where
  "isObjectId s = (length s = 24 \<and> list_all (isRadixDigit 16) s)"

definition same_id :: "string \<Rightarrow> product \<Rightarrow> bool" where
  "same_id i p = (map toUpper (pid p) = map toUpper i)"

definition findById :: "string \<Rightarrow> product list \<Rightarrow> app_error + product option" where
  "findById i store = (if isObjectId i then Inr (find (same_id i) store) else Inl CastError)"

text \<open>
  An update sets the fields the body supplies and leaves the others; the store stamps
  \<^verbatim>\<open>updatedAt\<close>. Keys outside the schema are dropped. A supplied value of another type
  than its field's never reaches the store, since \<^verbatim>\<open>validateProduct\<close> runs first; the
  model answers it with a cast error.
\<close>

definition set_text :: "json option \<Rightarrow> string \<Rightarrow> app_error + string" where
  "set_text v old = (case v of None \<Rightarrow> Inr old | Some (JStr s) \<Rightarrow> Inr s | Some _ \<Rightarrow> Inl CastError)"

definition set_number :: "json option \<Rightarrow> real \<Rightarrow> app_error + real" where
  "set_number v old = (case v of None \<Rightarrow> Inr old | Some (JNum x) \<Rightarrow> Inr x | Some _ \<Rightarrow> Inl CastError)"

definition set_bool :: "json option \<Rightarrow> bool \<Rightarrow> app_error + bool" where
  "set_bool v old = (case v of None \<Rightarrow> Inr old | Some (JBool x) \<Rightarrow> Inr x | Some _ \<Rightarrow> Inl CastError)"

definition apply_update :: "body \<Rightarrow> nat \<Rightarrow> product \<Rightarrow> app_error + product" where
  "apply_update b now p =
     (case (set_text (b ''name'') (name p), set_text (b ''description'') (description p),
            set_number (b ''price'') (price p), set_text (b ''category'') (category p),
            set_bool (b ''inStock'') (inStock p)) of
        (Inr n, Inr d, Inr pr, Inr c, Inr s) \<Rightarrow>
          Inr (p\<lparr>name := n, description := d, price := pr, category := c, inStock := s,
                 updatedAt := now\<rparr>)
      | _ \<Rightarrow> Inl CastError)"

fun replace_first :: "(product \<Rightarrow> bool) \<Rightarrow> product \<Rightarrow> product list \<Rightarrow> product list" where
  "replace_first P q [] = []"
| "replace_first P q (p # ps) = (if P p then q # ps else p # replace_first P q ps)"

fun remove_first :: "(product \<Rightarrow> bool) \<Rightarrow> product list \<Rightarrow> product list" where
  "remove_first P [] = []"
| "remove_first P (p # ps) = (if P p then ps else p # remove_first P ps)"

text \<open>\<^verbatim>\<open>findByIdAndUpdate(id, body, { new: true, runValidators: true })\<close>: the updated document, or none.\<close>

definition findByIdAndUpdate ::
  "string \<Rightarrow> body \<Rightarrow> nat \<Rightarrow> product list \<Rightarrow> app_error + (product option \<times> product list)" where
  "findByIdAndUpdate i b now store =
     (case findById i store of
        Inl e \<Rightarrow> Inl e
      | Inr None \<Rightarrow> Inr (None, store)
      | Inr (Some p) \<Rightarrow>
          (case apply_update b now p of
             Inl e \<Rightarrow> Inl e
           | Inr p' \<Rightarrow> Inr (Some p', replace_first (same_id i) p' store)))"

definition findByIdAndDelete ::
  "string \<Rightarrow> product list \<Rightarrow> app_error + (product option \<times> product list)" where
  "findByIdAndDelete i store =
     (case findById i store of
        Inl e \<Rightarrow> Inl e
      | Inr None \<Rightarrow> Inr (None, store)
      | Inr (Some p) \<Rightarrow> Inr (Some p, remove_first (same_id i) store))"

subsection \<open>The three handlers and the global error handler\<close>

text \<open>\<^verbatim>\<open>GET /:id\<close>: the \<^verbatim>\<open>catch\<close> block answers 404 as well.\<close>

definition get_route :: "string \<Rightarrow> product list \<Rightarrow> response" where
  "get_route i store =
     (case findById i store of
        Inl e \<Rightarrow> (404, Message ''Product Not Found'')
      | Inr None \<Rightarrow> (404, Message ''Product not found'')
      | Inr (Some p) \<Rightarrow> (200, ProductBody p))"

text \<open>
  \<^verbatim>\<open>PUT /:id\<close> runs \<^verbatim>\<open>authenticate\<close>, then \<^verbatim>\<open>validateProduct\<close>, then the handler, whose
  \<^verbatim>\<open>catch\<close> block answers 500. The result is the response and the store after the request.
\<close>

definition put_route ::
  "string option \<Rightarrow> request_headers \<Rightarrow> string \<Rightarrow> body \<Rightarrow> nat \<Rightarrow> product list
     \<Rightarrow> response \<times> product list" where
  "put_route env_key hs i b now store =
     (case authenticate env_key hs of
        Some r \<Rightarrow> (r, store)
      | None \<Rightarrow>
          (case validateProduct b of
             Inl r \<Rightarrow> (r, store)
           | Inr b' \<Rightarrow>
               (case findByIdAndUpdate i b' now store of
                  Inl e \<Rightarrow> ((500, Message ''Internal server error''), store)
                | Inr (None, store') \<Rightarrow> ((404, Message ''Product not found''), store')
                | Inr (Some p, store') \<Rightarrow>
                    ((200, ProductUpdated ''Product updated successfully'' p), store'))))"

text \<open>\<^verbatim>\<open>DELETE /:id\<close> runs \<^verbatim>\<open>authenticate\<close>, then the handler, whose \<^verbatim>\<open>catch\<close> block answers 500.\<close>

definition delete_route ::
  "string option \<Rightarrow> request_headers \<Rightarrow> string \<Rightarrow> product list \<Rightarrow> response \<times> product list" where
  "delete_route env_key hs i store =
     (case authenticate env_key hs of
        Some r \<Rightarrow> (r, store)
      | None \<Rightarrow>
          (case findByIdAndDelete i store of
             Inl e \<Rightarrow> ((500, Message ''Internal server error''), store)
           | Inr (None, store') \<Rightarrow> ((404, Message ''Product not found''), store')
           | Inr (Some p, store') \<Rightarrow>
               ((200, ProductDeleted ''Product deleted successfully'' p), store')))"

text \<open>
  The global error handler, installed last in \<^verbatim>\<open>server.js\<close>: it answers the errors that are
  passed on to it. \<open>production\<close> is \<^verbatim>\<open>process.env.NODE_ENV === 'production'\<close>.
\<close>

fun errorHandler :: "bool \<Rightarrow> app_error \<Rightarrow> response" where
  "errorHandler production (ValidationError msgs) = (400, ValidationFailed ''Validation Error'' msgs)"
| "errorHandler production (DuplicateKey kv) = (400, DuplicateField ''Duplicate field value entered'' kv)"
| "errorHandler production CastError = (400, Message ''Invalid ID format'')"
| "errorHandler production (OtherError m) =
     (500, ServerError ''Something went wrong!'' (if production then None else Some m))"

section \<open>The listing endpoint\<close>

subsection \<open>Where the handler's try block fails\<close>

text \<open>
  \<^verbatim>\<open>new RegExp(source, flags)\<close> throws a \<^verbatim>\<open>SyntaxError\<close> on an ill-formed source. In a source
  with no backslash and no bracket every parenthesis opens or closes a group, so such a
  source is ill-formed as soon as its parentheses do not balance: \<open>Throws\<close>. A source of
  the interpreted fragment compiles. Of any other source the model says nothing.
\<close>

datatype regexp_status = Compiles | Throws | NotInterpreted

fun balanced :: "nat \<Rightarrow> string \<Rightarrow> bool" where
  "balanced d [] = (d = 0)"
| "balanced d (c # cs) =
     (if c = CHR ''('' then balanced (Suc d) cs
      else if c = CHR '')'' then (case d of 0 \<Rightarrow> False | Suc d' \<Rightarrow> balanced d' cs)
      else balanced d cs)"

definition regexp_status :: "regexp \<Rightarrow> regexp_status" where
  "regexp_status re =
     (case parseAtoms (source re) of
        Some as \<Rightarrow> Compiles
      | None \<Rightarrow>
          if CHR 0x5C \<in> set (source re) \<or> CHR ''['' \<in> set (source re) then NotInterpreted
          else if balanced 0 (source re) then NotInterpreted
          else Throws)"

text \<open>
  \<^verbatim>\<open>Product.find(filter)\<close> casts the filter to the schema when the query runs. The path
  \<^verbatim>\<open>price\<close> is a \<^verbatim>\<open>Number\<close>, and the cast of a number rejects NaN with a cast error; every
  other bound the handler can build passes.
\<close>

definition cast_filter :: "product_filter \<Rightarrow> app_error + product_filter" where
  "cast_filter f =
     (case f_price f of
        None \<Rightarrow> Inr f
      | Some r \<Rightarrow> if gte r = Some NaN \<or> lte r = Some NaN then Inl CastError else Inr f)"

subsection \<open>Sorting and the response\<close>

text \<open>
  \<^verbatim>\<open>.sort(sortOptions)\<close> on the matching products. The model sorts by the four fields of
  the schema that hold a text or a number, and reverses the ascending order for a
  descending sort; no sort option leaves the store's order. Any other field: \<open>None\<close>.
\<close>

definition sort_by_field :: "string \<Rightarrow> product list \<Rightarrow> product list option" where
  "sort_by_field field xs =
     (if field = ''name'' then Some (sort_key name xs)
      else if field = ''description'' then Some (sort_key description xs)
      else if field = ''category'' then Some (sort_key category xs)
      else if field = ''price'' then Some (sort_key price xs)
      else None)"

definition sort_products :: "(string \<times> int) option \<Rightarrow> product list \<Rightarrow> product list option" where
  "sort_products sortOptions xs =
     (case sortOptions of
        None \<Rightarrow> Some xs
      | Some (field, order) \<Rightarrow>
          map_option (\<lambda>ys. if order < 0 then rev ys else ys) (sort_by_field field xs))"

record listing_pagination =
  lpg_currentPage :: real
  lpg_totalPages :: int
  lpg_totalProducts :: nat
  lpg_productsPerPage :: real
  lpg_hasNext :: bool
  lpg_hasPrev :: bool
  lpg_nextPage :: "real option"
  lpg_prevPage :: "real option"

record listing_filters =
  lf_category :: "string option"
  lf_inStock :: "bool option"
  lf_minPrice :: "jsnum option"
  lf_maxPrice :: "jsnum option"
  lf_sort :: string
  lf_fields :: "string option"

record listing_body =
  lb_pagination :: listing_pagination
  lb_filters :: listing_filters
  lb_count :: nat
  lb_products :: "product list"

datatype listing_response = ListingFailed string | ListingOk listing_body

text \<open>
  \<^verbatim>\<open>GET /\<close>. The whole handler is one \<^verbatim>\<open>try\<close> block: the throw of the \<^verbatim>\<open>RegExp\<close> constructor
  and the cast error of the query are caught and answered with 500 and the message
  \<^verbatim>\<open>Internal server error\<close> (the response also carries the text of the error, which the
  model leaves out). Otherwise the matching products are sorted, skipped and limited, and
  counted for the page metadata. \<open>None\<close> stands for a request outside the model: a
  category outside the pattern fragment that is not known to throw, a page or a limit
  that is NaN, a sort by a field the model does not sort by, or a selection of fields.
\<close>

definition listing_route :: "listing_query \<Rightarrow> product list \<Rightarrow> (nat \<times> listing_response) option" where
  "listing_route q store =
     (case (case build_category (q_category q) of None \<Rightarrow> Compiles | Some re \<Rightarrow> regexp_status re) of
        Throws \<Rightarrow> Some (500, ListingFailed ''Internal server error'')
      | NotInterpreted \<Rightarrow> None
      | Compiles \<Rightarrow>
          (let plan = listing_plan q
           in case (lp_pageNum plan, lp_limitNum plan) of
                (Fin pg, Fin lm) \<Rightarrow>
                  (case cast_filter (lp_filter plan) of
                     Inl e \<Rightarrow> Some (500, ListingFailed ''Internal server error'')
                   | Inr f \<Rightarrow>
                       if lp_fields plan = []
                       then
                         (case sort_products (lp_sort plan)
                                 (filter (\<lambda>p. filter_matches f p = Some True) store) of
                            None \<Rightarrow> None
                          | Some found \<Rightarrow>
                              (case window (lp_skip plan) (lp_limitNum plan) found of
                                 None \<Rightarrow> None
                               | Some products \<Rightarrow>
                                   (let totalProducts = length found;
                                        totalPages = \<lceil>real totalProducts / lm\<rceil>
                                    in Some (200, ListingOk
                                         \<lparr>lb_pagination =
                                            \<lparr>lpg_currentPage = pg, lpg_totalPages = totalPages,
                                             lpg_totalProducts = totalProducts,
                                             lpg_productsPerPage = lm,
                                             lpg_hasNext = (pg < of_int totalPages),
                                             lpg_hasPrev = (1 < pg),
                                             lpg_nextPage =
                                               (if pg < of_int totalPages then Some (pg + 1) else None),
                                             lpg_prevPage = (if 1 < pg then Some (pg - 1) else None)\<rparr>,
                                          lb_filters =
                                            \<lparr>lf_category = js_or (q_category q) None,
                                             lf_inStock = build_inStock (q_inStock q),
                                             lf_minPrice = build_bound (q_minPrice q),
                                             lf_maxPrice = build_bound (q_maxPrice q),
                                             lf_sort = rawOrDefault ''name'' (q_sort q),
                                             lf_fields = js_or (q_fields q) None\<rparr>,
                                          lb_count = length products,
                                          lb_products = products\<rparr>))))
                       else None)
              | _ \<Rightarrow> None))"

section \<open>Auxiliary notions for the proofs\<close>

text \<open>A group that holds at least one document, with no more documents in stock than it holds.\<close>

definition group_ok :: "category_group \<Rightarrow> bool" where
  "group_ok g = (1 \<le> g_count g \<and> g_inStockCount g \<le> g_count g)"

text \<open>What \<^verbatim>\<open>$project\<close> makes of a group, when its division succeeds.\<close>

definition stat_of :: "category_group \<Rightarrow> category_stat" where
  "stat_of g =
     \<lparr>cs_category = g_id g, cs_count = g_count g,
      cs_averagePrice = mongo_round2 (g_averagePrice g),
      cs_totalValue = mongo_round2 (g_totalValue g),
      cs_minPrice = g_minPrice g, cs_maxPrice = g_maxPrice g,
      cs_inStockCount = g_inStockCount g, cs_outOfStockCount = g_outOfStockCount g,
      cs_inStockPercentage = mongo_round2 (real (g_inStockCount g) / real (g_count g) * 100)\<rparr>"

section \<open>Properties of the pagination\<close>

lemmas parse_defs = parseInt_def rawOrDefault_def trimStart_def isWhiteSpace_def
  isRadixDigit_def digitValue_def digitsValue_def

lemma Math_max_Fin: "Math_max (Fin a) (Fin b) = Fin (max a b)"
  by (simp add: Math_max_def max_def)

lemma Math_min_Fin: "Math_min (Fin a) (Fin b) = Fin (min a b)"
  by (simp add: Math_min_def min_def)

text \<open>\<^verbatim>\<open>parseInt\<close> answers NaN or an integer.\<close>

lemma parseInt_cases: "parseInt s = NaN \<or> (\<exists>n. parseInt s = Fin (of_int n))"
  by (simp add: parseInt_def Let_def split: prod.splits del: of_int_mult of_int_of_nat_eq)

lemma window_natural:
  "window (Fin (of_int a)) (Fin (of_int b)) xs =
     (if 0 \<le> a \<and> 0 \<le> b then Some (take (nat b) (drop (nat a) xs)) else None)"
  by (simp add: window_def is_natural_def)

text \<open>
  C2, as the claim states it, fails: a requested limit below 1 is not coerced to the
  default 10 but raised to 1, and a limit that is not numeric gives NaN, not 10.
\<close>

theorem listing_limit_counterexample:
  "listing_limitNum (Some ''0'') = Fin 1 \<and> listing_limitNum (Some ''0'') \<noteq> Fin 10
   \<and> listing_limitNum (Some ''abc'') = NaN"
  by (simp add: listing_limitNum_def parse_defs Math_max_def Math_min_def)

text \<open>
  C2, amended: on the listing endpoint the normalized limit is 10 when the parameter is
  missing, and when the parameter parses as an integer \<open>n\<close> it is \<open>n\<close> clamped into the
  inclusive range from 1 to 100: a value below 1 becomes 1, a value above 100 becomes 100.
\<close>

theorem listing_limit_clamped:
  "listing_limitNum None = Fin 10 \<and>
   (parseInt s = Fin (of_int n) \<longrightarrow> listing_limitNum (Some s) = Fin (of_int (max 1 (min n 100))))"
proof
  show "listing_limitNum None = Fin 10"
    by (simp add: listing_limitNum_def parse_defs Math_max_def Math_min_def)
  show "parseInt s = Fin (of_int n) \<longrightarrow> listing_limitNum (Some s) = Fin (of_int (max 1 (min n 100)))"
    by (simp add: listing_limitNum_def rawOrDefault_def Math_max_Fin Math_min_Fin max_def min_def)
qed

theorem listing_limit_clamped_witness:
  "parseInt ''500'' = Fin (of_int 500) \<and> listing_limitNum (Some ''500'') = Fin 100
   \<and> parseInt ''-3'' = Fin (of_int (- 3)) \<and> listing_limitNum (Some ''-3'') = Fin 1
   \<and> parseInt ''25'' = Fin (of_int 25) \<and> listing_limitNum (Some ''25'') = Fin 25"
proof -
  have a: "parseInt ''500'' = Fin (of_int 500)" by (simp add: parse_defs)
  have b: "parseInt ''-3'' = Fin (of_int (- 3))" by (simp add: parse_defs)
  have c: "parseInt ''25'' = Fin (of_int 25)" by (simp add: parse_defs)
  from a b c listing_limit_clamped [of "''500''" 500] listing_limit_clamped [of "''-3''" "- 3"]
    listing_limit_clamped [of "''25''" 25]
  show ?thesis by simp
qed

text \<open>
  C6: the claim wants page 1 for a page parameter that is not numeric. The handler
  computes \<^verbatim>\<open>Math.max(1, parseInt(page))\<close>, which is NaN for \<^verbatim>\<open>page=abc\<close>, and the skip it
  hands to the store is NaN as well.
\<close>

theorem listing_page_non_numeric:
  "listing_pageNum (Some ''abc'') = NaN \<and> listing_skip (Some ''abc'') None = NaN"
  by (simp add: listing_pageNum_def listing_skip_def skip_of_def parse_defs Math_max_def)

text \<open>
  The rest of the claim holds: a missing page is page 1, a page that parses to an integer
  \<open>n\<close> is \<open>max 1 n\<close>, and the skip is \<open>(page - 1) * limit\<close>.
\<close>

lemma listing_page_numeric:
  "listing_pageNum None = Fin 1 \<and>
   (parseInt s = Fin (of_int n) \<longrightarrow>
      listing_pageNum (Some s) = Fin (of_int (max 1 n)) \<and>
      (parseInt t = Fin (of_int m) \<longrightarrow>
         listing_skip (Some s) (Some t) = Fin (of_int ((max 1 n - 1) * max 1 (min m 100)))))"
  apply (simp add: listing_pageNum_def listing_skip_def skip_of_def listing_limitNum_def
      rawOrDefault_def Math_max_Fin Math_min_Fin)
  apply (simp add: parse_defs Math_max_Fin max_def min_def)
  done

text \<open>
  A search without a page parameter answers the first page; with a limit that parses to
  \<open>n\<close> it returns \<open>max 1 n\<close> products, or all the matching ones when they are fewer.
\<close>

lemma search_route_results:
  assumes p: "parseInt s = Fin (of_int n)"
    and r: "search_route q None (Some s) store = Some (200, SearchOk b)"
  shows "sb_results b = min (nat (max 1 n)) (si_totalResults (sb_search b))"
proof -
  have l: "search_limitNum (Some s) = Fin (of_int (max 1 n))"
    using p by (simp add: search_limitNum_def rawOrDefault_def Math_max_Fin max_def)
  have pg: "search_pageNum None = Fin (of_int 1)"
    by (simp add: search_pageNum_def parse_defs Math_max_def)
  have sk: "skip_of (Fin (of_int 1)) (Fin (of_int (max 1 n))) = Fin (of_int 0)"
    by (simp add: skip_of_def)
  have w: "window (Fin (of_int 0)) (Fin (of_int (max 1 n))) xs = Some (take (nat (max 1 n)) xs)"
    for xs :: "product list"
    by (simp only: window_natural) simp
  show ?thesis
    using r unfolding search_route_def Let_def l pg sk w
    by (auto split: if_splits)
qed

text \<open>
  C10: on the search endpoint a limit that parses to an integer \<open>n\<close> is applied as
  \<open>max 1 n\<close>, with no upper bound: the first page holds the first \<open>max 1 n\<close> matching
  products, as many as there are, also when \<open>n\<close> is above 100, where the listing endpoint
  applies 100.
\<close>

theorem search_limit_lower_bound_only:
  "parseInt s = Fin (of_int n) \<Longrightarrow>
     search_limitNum (Some s) = Fin (of_int (max 1 n)) \<and>
     window (skip_of (search_pageNum None) (search_limitNum (Some s))) (search_limitNum (Some s)) xs
       = Some (take (nat (max 1 n)) xs) \<and>
     (100 < n \<longrightarrow> search_limitNum (Some s) = Fin (of_int n) \<and> listing_limitNum (Some s) = Fin 100) \<and>
     (search_route q None (Some s) store = Some (200, SearchOk b) \<longrightarrow>
        sb_results b = min (nat (max 1 n)) (si_totalResults (sb_search b)))"
proof -
  assume p: "parseInt s = Fin (of_int n)"
  have l: "search_limitNum (Some s) = Fin (of_int (max 1 n))"
    using p by (simp add: search_limitNum_def rawOrDefault_def Math_max_Fin max_def)
  have pg: "search_pageNum None = Fin 1"
    by (simp add: search_pageNum_def parse_defs Math_max_def)
  have sk: "skip_of (search_pageNum None) (Fin (of_int (max 1 n))) = Fin (of_int 0)"
    by (simp add: skip_of_def pg)
  have w: "window (skip_of (search_pageNum None) (search_limitNum (Some s))) (search_limitNum (Some s)) xs
       = Some (take (nat (max 1 n)) xs)"
    unfolding l sk by (simp only: window_natural) simp
  have c: "100 < n \<longrightarrow> listing_limitNum (Some s) = Fin 100"
    using p by (simp add: listing_limitNum_def rawOrDefault_def Math_max_Fin Math_min_Fin)
  have r: "search_route q None (Some s) store = Some (200, SearchOk b) \<longrightarrow>
        sb_results b = min (nat (max 1 n)) (si_totalResults (sb_search b))"
    using search_route_results [OF p] by blast
  show ?thesis using l w c r by (simp add: max_def)
qed

theorem search_limit_lower_bound_only_witness:
  "parseInt ''150'' = Fin (of_int 150) \<and> search_limitNum (Some ''150'') = Fin 150
   \<and> listing_limitNum (Some ''150'') = Fin 100
   \<and> window (skip_of (search_pageNum None) (search_limitNum (Some ''150'')))
        (search_limitNum (Some ''150'')) (replicate 200 ''p'') = Some (replicate 150 ''p'')
   \<and> search_route (Some ''phone'') None (Some ''150'')
        [\<lparr>pid = ''507f1f77bcf86cd799439011'', name = ''iPhone 15 Pro'',
          description = ''Latest smartphone'', price = 999, category = ''electronics'',
          inStock = True, createdAt = 0, updatedAt = 0\<rparr>]
      = Some (200, SearchOk
          \<lparr>sb_search = \<lparr>si_query = ''phone'', si_totalResults = 1, si_currentPage = Fin 1,
                         si_totalPages = 1, si_hasNext = False, si_hasPrev = False\<rparr>,
           sb_results = 1,
           sb_products =
             [\<lparr>pid = ''507f1f77bcf86cd799439011'', name = ''iPhone 15 Pro'',
               description = ''Latest smartphone'', price = 999, category = ''electronics'',
               inStock = True, createdAt = 0, updatedAt = 0\<rparr>]\<rparr>)"
proof -
  have a: "parseInt ''150'' = Fin (of_int 150)" by (simp add: parse_defs)
  have e: "search_route (Some ''phone'') None (Some ''150'')
        [\<lparr>pid = ''507f1f77bcf86cd799439011'', name = ''iPhone 15 Pro'',
          description = ''Latest smartphone'', price = 999, category = ''electronics'',
          inStock = True, createdAt = 0, updatedAt = 0\<rparr>]
      = Some (200, SearchOk
          \<lparr>sb_search = \<lparr>si_query = ''phone'', si_totalResults = 1, si_currentPage = Fin 1,
                         si_totalPages = 1, si_hasNext = False, si_hasPrev = False\<rparr>,
           sb_results = 1,
           sb_products =
             [\<lparr>pid = ''507f1f77bcf86cd799439011'', name = ''iPhone 15 Pro'',
               description = ''Latest smartphone'', price = 999, category = ''electronics'',
               inStock = True, createdAt = 0, updatedAt = 0\<rparr>]\<rparr>)"
    by code_simp
  note t = search_limit_lower_bound_only [OF a, of "replicate 200 ''p''" "Some ''phone''"
      "[\<lparr>pid = ''507f1f77bcf86cd799439011'', name = ''iPhone 15 Pro'',
          description = ''Latest smartphone'', price = 999, category = ''electronics'',
          inStock = True, createdAt = 0, updatedAt = 0\<rparr>]"
      "\<lparr>sb_search = \<lparr>si_query = ''phone'', si_totalResults = 1, si_currentPage = Fin 1,
                         si_totalPages = 1, si_hasNext = False, si_hasPrev = False\<rparr>,
           sb_results = 1,
           sb_products =
             [\<lparr>pid = ''507f1f77bcf86cd799439011'', name = ''iPhone 15 Pro'',
               description = ''Latest smartphone'', price = 999, category = ''electronics'',
               inStock = True, createdAt = 0, updatedAt = 0\<rparr>]\<rparr>"]
  have l: "search_limitNum (Some ''150'') = Fin 150" using t by simp
  have c: "listing_limitNum (Some ''150'') = Fin 100" using t by simp
  have w: "window (skip_of (search_pageNum None) (search_limitNum (Some ''150'')))
        (search_limitNum (Some ''150'')) (replicate 200 ''p'') = Some (replicate 150 ''p'')"
    using conjunct1 [OF conjunct2 [OF t]] by simp
  show ?thesis using a l c w e by blast
qed

section \<open>Properties of the listing filter\<close>

lemmas float_defs = parseFloat_def trimStart_def isWhiteSpace_def isRadixDigit_def digitValue_def
  digitsValue_def pow10_def

lemma parseFloat_empty: "parseFloat [] = NaN"
  by (simp add: float_defs)

lemma js_le_Fin: "js_le (Fin a) (Fin b) = (a \<le> b)"
  by auto

text \<open>
  C5: the claim wants a bound that does not parse to be omitted, with no error raised.
  For \<^verbatim>\<open>minPrice=abc\<close> the handler puts \<^verbatim>\<open>$gte: NaN\<close> into the filter; the store's cast of
  the filter rejects it, and the handler answers 500 on every store. The same request
  without the parameter is answered with 200.
\<close>

theorem listing_unparsable_price_fails:
  "f_price (build_filter \<lparr>q_category = None, q_inStock = None, q_minPrice = Some ''abc'',
        q_maxPrice = None, q_page = None, q_limit = None, q_sort = None, q_fields = None\<rparr>)
     = Some \<lparr>gte = Some NaN, lte = None\<rparr>
   \<and> listing_route \<lparr>q_category = None, q_inStock = None, q_minPrice = Some ''abc'',
        q_maxPrice = None, q_page = None, q_limit = None, q_sort = None, q_fields = None\<rparr> store
     = Some (500, ListingFailed ''Internal server error'')
   \<and> listing_route \<lparr>q_category = None, q_inStock = None, q_minPrice = None,
        q_maxPrice = None, q_page = None, q_limit = None, q_sort = None, q_fields = None\<rparr> []
     = Some (200, ListingOk
         \<lparr>lb_pagination =
            \<lparr>lpg_currentPage = 1, lpg_totalPages = 0, lpg_totalProducts = 0,
             lpg_productsPerPage = 10, lpg_hasNext = False, lpg_hasPrev = False,
             lpg_nextPage = None, lpg_prevPage = None\<rparr>,
          lb_filters =
            \<lparr>lf_category = None, lf_inStock = None, lf_minPrice = None, lf_maxPrice = None,
             lf_sort = ''name'', lf_fields = None\<rparr>,
          lb_count = 0, lb_products = []\<rparr>)"
proof -
  have nan: "parseFloat ''abc'' = NaN"
    by (simp add: float_defs)
  have pg: "listing_pageNum None = Fin 1"
    by (simp add: listing_pageNum_def parse_defs Math_max_def)
  have lm: "listing_limitNum None = Fin 10"
    by (simp add: listing_limitNum_def parse_defs Math_max_def Math_min_def)
  have sk: "listing_skip None None = Fin 0"
    by (simp add: listing_skip_def skip_of_def pg lm)
  have w: "window (Fin 0) (Fin 10) ([] :: product list) = Some []"
    by (simp add: window_def is_natural_def)
  show ?thesis
    by (simp add: listing_route_def listing_plan_def build_filter_def build_category_def
        build_price_def build_bound_def build_inStock_def build_sort_def build_fields_def
        truthy_def cast_filter_def nan pg lm sk w rawOrDefault_def js_or_def
        sort_products_def sort_by_field_def)
qed

text \<open>
  The rest of the claim holds of the filter the handler builds: a bound that is absent
  or empty is omitted, the filter being the one built without the parameter, and the
  store applies the bounds it is given inclusively.
\<close>

lemma listing_price_absent_omitted:
  "(q_minPrice q = None \<or> q_minPrice q = Some [] \<longrightarrow>
      build_filter q = build_filter (q\<lparr>q_minPrice := None\<rparr>)) \<and>
   (q_maxPrice q = None \<or> q_maxPrice q = Some [] \<longrightarrow>
      build_filter q = build_filter (q\<lparr>q_maxPrice := None\<rparr>))"
  by (auto simp: build_filter_def build_price_def build_bound_def truthy_def)

lemma listing_price_supplied:
  "s \<noteq> [] \<Longrightarrow> build_bound (Some s) = Some (parseFloat s)"
  by (simp add: build_bound_def truthy_def)

lemma price_range_inclusive:
  "price_in_range \<lparr>gte = Some (Fin lo), lte = Some (Fin hi)\<rparr> p = Some (lo \<le> price p \<and> price p \<le> hi)"
  "price_in_range \<lparr>gte = Some (Fin lo), lte = None\<rparr> p = Some (lo \<le> price p)"
  "price_in_range \<lparr>gte = None, lte = Some (Fin hi)\<rparr> p = Some (price p \<le> hi)"
  by (simp_all add: price_in_range_def js_le_Fin)

text \<open>
  C3: the claim wants an exact match up to letter case for every category parameter. The
  handler puts the parameter into the pattern as it is, so a syntax character of the
  pattern language keeps its meaning: \<^verbatim>\<open>category=electronic.\<close> matches the stored category
  \<^verbatim>\<open>electronics\<close>, which is not the parameter in any letter case.
\<close>

theorem category_filter_pattern_match:
  "filter_matches
     (build_filter \<lparr>q_category = Some ''electronic.'', q_inStock = None, q_minPrice = None,
        q_maxPrice = None, q_page = None, q_limit = None, q_sort = None, q_fields = None\<rparr>)
     \<lparr>pid = ''507f1f77bcf86cd799439011'', name = ''iPhone 15 Pro'',
      description = ''Latest smartphone'', price = 999, category = ''electronics'',
      inStock = True, createdAt = 0, updatedAt = 0\<rparr> = Some True
   \<and> map toUpper ''electronics'' \<noteq> map toUpper ''electronic.''"
  by code_simp

text \<open>
  For a parameter without syntax characters the filter is the exact match the handler's
  comment describes.
\<close>

lemma canonicalize_True: "canonicalize True = toUpper"
  by (rule ext) (simp add: canonicalize_def)

lemma parseAtoms_plain:
  "list_all (\<lambda>x. isSyntaxChar x = False) c \<Longrightarrow> parseAtoms (c @ ''$'') = Some (map Lit c @ [EOL])"
  by (induction c) (auto simp: isSyntaxChar_def)

lemma matchHere_plain:
  "matchHere i (map Lit c @ [EOL]) b s = (map (canonicalize i) c = map (canonicalize i) s)"
proof (induction c arbitrary: s b)
  case Nil
  then show ?case by auto
next
  case (Cons a c)
  then show ?case by (cases s) auto
qed

lemma searchFrom_BOL_later: "searchFrom i (BOL # as) False s = False"
  by (induction s) auto

lemma searchFrom_BOL: "searchFrom i (BOL # as) True s = matchHere i as True s"
  by (cases s) (auto simp: searchFrom_BOL_later)

lemma category_filter_exact_on_plain_text:
  assumes "q_category q = Some raw" and "trim raw \<noteq> []"
    and "list_all (\<lambda>x. isSyntaxChar x = False) (trim raw)"
  shows "category_matches (build_filter q) p
           = Some (map toUpper (category p) = map toUpper (trim raw))"
proof -
  have r: "raw \<noteq> []" using assms(2) by (auto simp: trim_def)
  have f: "f_category (build_filter q) = Some \<lparr>source = ''^'' @ trim raw @ ''$'', flags = ''i''\<rparr>"
    using assms(1,2) r by (simp add: build_filter_def build_category_def truthy_def)
  have "regex_test \<lparr>source = ''^'' @ trim raw @ ''$'', flags = ''i''\<rparr> (category p)
          = Some (map toUpper (trim raw) = map toUpper (category p))"
    using parseAtoms_plain [OF assms(3)]
    by (simp add: regex_test_def searchFrom_BOL matchHere_plain canonicalize_True)
  then show ?thesis
    by (auto simp: category_matches_def f)
qed

section \<open>Properties of the update, read and delete handlers\<close>

text \<open>
  C1: the claim wants \<^verbatim>\<open>PUT /:id\<close> to succeed on a body with only some of the fields, as the
  example of the README does with \<^verbatim>\<open>{ "price": 1799, "inStock": false }\<close>. The handler runs
  \<^verbatim>\<open>validateProduct\<close> first, which demands name, description, price and category of every
  body: a body without one of them is answered with 400 and the store is left as it was.
\<close>

theorem put_partial_body_rejected:
  "authenticate env_key hs = None \<Longrightarrow>
   b ''name'' = None \<or> b ''description'' = None \<or> b ''price'' = None \<or> b ''category'' = None \<Longrightarrow>
   put_route env_key hs i b now store
     = ((400, ValidationFailed ''Validation failed'' (validation_errors b)), store)
   \<and> validation_errors b \<noteq> []"
proof -
  assume a: "authenticate env_key hs = None"
  assume m: "b ''name'' = None \<or> b ''description'' = None \<or> b ''price'' = None \<or> b ''category'' = None"
  have e: "validation_errors b \<noteq> []"
    using m by (auto simp: validation_errors_def text_errors_def price_errors_def)
  then show ?thesis
    using a by (simp add: put_route_def validateProduct_def Let_def)
qed

theorem put_partial_body_rejected_witness:
  "authenticate None \<lparr>x_api_key = Some ''default-secret-key-123'', authorization = None\<rparr> = None
   \<and> put_route None \<lparr>x_api_key = Some ''default-secret-key-123'', authorization = None\<rparr>
        ''507f1f77bcf86cd799439011'' [''price'' \<mapsto> JNum 1799, ''inStock'' \<mapsto> JBool False] 2
        [\<lparr>pid = ''507f1f77bcf86cd799439011'', name = ''iPhone 15 Pro'',
          description = ''Latest smartphone'', price = 999, category = ''electronics'',
          inStock = True, createdAt = 1, updatedAt = 1\<rparr>]
     = ((400, ValidationFailed ''Validation failed''
           [''Name is required and must be a non-empty string'',
            ''Description is required and must be a non-empty string'',
            ''Category is required and must be a non-empty string'']),
        [\<lparr>pid = ''507f1f77bcf86cd799439011'', name = ''iPhone 15 Pro'',
          description = ''Latest smartphone'', price = 999, category = ''electronics'',
          inStock = True, createdAt = 1, updatedAt = 1\<rparr>])"
proof -
  have a: "authenticate None \<lparr>x_api_key = Some ''default-secret-key-123'', authorization = None\<rparr> = None"
    by (simp add: authenticate_def js_or_def truthy_def)
  have m: "[''price'' \<mapsto> JNum 1799, ''inStock'' \<mapsto> JBool False] ''name'' = None
      \<or> [''price'' \<mapsto> JNum 1799, ''inStock'' \<mapsto> JBool False] ''description'' = None
      \<or> [''price'' \<mapsto> JNum 1799, ''inStock'' \<mapsto> JBool False] ''price'' = None
      \<or> [''price'' \<mapsto> JNum 1799, ''inStock'' \<mapsto> JBool False] ''category'' = None"
    by simp
  have v: "validation_errors [''price'' \<mapsto> JNum 1799, ''inStock'' \<mapsto> JBool False]
     = [''Name is required and must be a non-empty string'',
            ''Description is required and must be a non-empty string'',
            ''Category is required and must be a non-empty string'']"
    by (simp add: validation_errors_def text_errors_def price_errors_def inStock_errors_def)
  show ?thesis
    using a conjunct1 [OF put_partial_body_rejected [OF a m]] by (simp only: v)
qed

text \<open>
  A body that passes the validation updates the product it names: the supplied fields are
  set, the texts trimmed, and \<^verbatim>\<open>inStock\<close> is left as it was when the body has none.
\<close>

lemma valid_body_shape:
  assumes "validation_errors b = []"
  shows "(\<exists>n. b ''name'' = Some (JStr n)) \<and> (\<exists>d. b ''description'' = Some (JStr d))
     \<and> (\<exists>x. b ''price'' = Some (JNum x) \<and> 0 \<le> x) \<and> (\<exists>c. b ''category'' = Some (JStr c))
     \<and> (b ''inStock'' = None \<or> (\<exists>v. b ''inStock'' = Some (JBool v)))"
  using assms
  by (auto simp: validation_errors_def text_errors_def price_errors_def inStock_errors_def
      split: option.splits json.splits if_splits)

lemma put_valid_body_updates:
  assumes "authenticate env_key hs = None" and "validation_errors b = []"
    and "findById i store = Inr (Some p)"
    and "b ''name'' = Some (JStr n)" and "b ''description'' = Some (JStr d)"
    and "b ''price'' = Some (JNum x)" and "b ''category'' = Some (JStr c)"
  shows "put_route env_key hs i b now store =
     ((200, ProductUpdated ''Product updated successfully''
         (p\<lparr>name := trim n, description := trim d, price := x, category := trim c,
            inStock := (case b ''inStock'' of Some (JBool v) \<Rightarrow> v | _ \<Rightarrow> inStock p),
            updatedAt := now\<rparr>)),
      replace_first (same_id i)
         (p\<lparr>name := trim n, description := trim d, price := x, category := trim c,
            inStock := (case b ''inStock'' of Some (JBool v) \<Rightarrow> v | _ \<Rightarrow> inStock p),
            updatedAt := now\<rparr>) store)"
proof -
  from valid_body_shape [OF assms(2)]
  have s: "b ''inStock'' = None \<or> (\<exists>v. b ''inStock'' = Some (JBool v))" by blast
  then show ?thesis
    using assms
    by (auto simp: put_route_def validateProduct_def findByIdAndUpdate_def apply_update_def
        trim_field_def set_text_def set_number_def set_bool_def)
qed

text \<open>
  C4: the claim wants a client error for a malformed identity on all three routes. The
  store rejects the identity with a cast error; \<^verbatim>\<open>GET /:id\<close> answers 404, but the \<^verbatim>\<open>catch\<close>
  blocks of \<^verbatim>\<open>PUT /:id\<close> and \<^verbatim>\<open>DELETE /:id\<close> answer 500 and never pass the error on to the
  global error handler, which would answer 400. The store is unchanged in each case.
\<close>

theorem malformed_id_server_error:
  "isObjectId i = False \<Longrightarrow> authenticate env_key hs = None \<Longrightarrow> validation_errors b = [] \<Longrightarrow>
   get_route i store = (404, Message ''Product Not Found'')
   \<and> put_route env_key hs i b now store = ((500, Message ''Internal server error''), store)
   \<and> delete_route env_key hs i store = ((500, Message ''Internal server error''), store)
   \<and> errorHandler production CastError = (400, Message ''Invalid ID format'')"
  by (simp add: get_route_def put_route_def delete_route_def findById_def findByIdAndUpdate_def
      findByIdAndDelete_def validateProduct_def)

theorem malformed_id_server_error_witness:
  "isObjectId ''abc'' = False
   \<and> authenticate None \<lparr>x_api_key = Some ''default-secret-key-123'', authorization = None\<rparr> = None
   \<and> validation_errors [''name'' \<mapsto> JStr ''MacBook Pro'', ''description'' \<mapsto> JStr ''Professional laptop'',
        ''price'' \<mapsto> JNum 1999, ''category'' \<mapsto> JStr ''electronics''] = []
   \<and> put_route None \<lparr>x_api_key = Some ''default-secret-key-123'', authorization = None\<rparr> ''abc''
        [''name'' \<mapsto> JStr ''MacBook Pro'', ''description'' \<mapsto> JStr ''Professional laptop'',
         ''price'' \<mapsto> JNum 1999, ''category'' \<mapsto> JStr ''electronics''] 2 []
       = ((500, Message ''Internal server error''), [])
   \<and> delete_route None \<lparr>x_api_key = Some ''default-secret-key-123'', authorization = None\<rparr> ''abc'' []
       = ((500, Message ''Internal server error''), [])
   \<and> get_route ''abc'' [] = (404, Message ''Product Not Found'')"
proof -
  have i: "isObjectId ''abc'' = False"
    by (simp add: isObjectId_def)
  have a: "authenticate None \<lparr>x_api_key = Some ''default-secret-key-123'', authorization = None\<rparr> = None"
    by (simp add: authenticate_def js_or_def truthy_def)
  have v: "validation_errors [''name'' \<mapsto> JStr ''MacBook Pro'', ''description'' \<mapsto> JStr ''Professional laptop'',
        ''price'' \<mapsto> JNum 1999, ''category'' \<mapsto> JStr ''electronics''] = []"
    by (simp add: validation_errors_def text_errors_def price_errors_def inStock_errors_def
        trim_def isWhiteSpace_def)
  show ?thesis
    using i a v malformed_id_server_error [OF i a v, of "[]" 2 True] by blast
qed

section \<open>Properties of the statistics\<close>

text \<open>
  C7: on an empty store the statistics succeed with status 200: the total is 0, the
  percentage in stock is the number 0, the price statistics are the empty object and
  there is no category.
\<close>

theorem stats_empty_store:
  "stats_route now [] =
     (200, StatsOk
       \<lparr>st_summary = \<lparr>ss_totalProducts = 0, ss_inStock = 0, ss_outOfStock = 0,
                       ss_inStockPercentage = PctNumber 0\<rparr>,
        st_priceStatistics = None, st_categories = [], st_lastUpdated = now\<rparr>)"
  by (simp add: stats_route_def categoryStats_def group_by_category_def sort_by_count_desc_def)

text \<open>Every group holds at least one document, and no more documents in stock than it holds.\<close>

lemma new_group_ok: "group_ok (new_group p)"
  by (simp add: group_ok_def new_group_def)

lemma add_to_group_ok: "group_ok g \<Longrightarrow> group_ok (add_to_group p g)"
  by (simp add: group_ok_def add_to_group_def)

lemma group_step_ok: "list_all group_ok gs \<Longrightarrow> list_all group_ok (group_step p gs)"
  by (induction gs) (auto simp: new_group_ok add_to_group_ok)

lemma foldl_group_step_ok:
  "list_all group_ok gs \<Longrightarrow> list_all group_ok (foldl (\<lambda>gs p. group_step p gs) gs store)"
  by (induction store arbitrary: gs) (auto simp: group_step_ok)

lemma group_by_category_ok: "list_all group_ok (group_by_category store)"
  by (simp add: group_by_category_def foldl_group_step_ok)

lemma group_step_count:
  "sum_list (map g_count (group_step p gs)) = Suc (sum_list (map g_count gs))"
  by (induction gs) (auto simp: new_group_def add_to_group_def)

lemma foldl_group_step_count:
  "sum_list (map g_count (foldl (\<lambda>gs p. group_step p gs) gs store))
     = sum_list (map g_count gs) + length store"
  by (induction store arbitrary: gs) (auto simp: group_step_count)

lemma group_by_category_count: "sum_list (map g_count (group_by_category store)) = length store"
  by (simp add: group_by_category_def foldl_group_step_count)

lemma insort_key_sum:
  "sum_list (map f (insort_key k x xs)) = f x + sum_list (map (f :: 'a \<Rightarrow> nat) xs)"
  by (induction xs) auto

lemma sort_key_sum: "sum_list (map f (sort_key k xs)) = sum_list (map (f :: 'a \<Rightarrow> nat) xs)"
  by (induction xs) (auto simp: insort_key_sum)

lemma sort_by_count_desc_ok: "list_all group_ok gs \<Longrightarrow> list_all group_ok (sort_by_count_desc gs)"
  by (simp add: sort_by_count_desc_def list_all_iff)

lemma sorted_desc_counts:
  "sorted_wrt (\<lambda>a b. b \<le> a) (map g_count (sort_by_count_desc gs))"
proof -
  have "sorted (map (\<lambda>g. - int (g_count g)) (sort_by_count_desc gs))"
    unfolding sort_by_count_desc_def by (rule sorted_sort_key)
  then have "sorted_wrt (\<lambda>a b. - int a \<le> - int b) (map g_count (sort_by_count_desc gs))"
    by (simp add: sorted_wrt_map)
  then show ?thesis by simp
qed

lemma project_group_ok: "group_ok g \<Longrightarrow> project_group g = Inr (stat_of g)"
  by (simp add: project_group_def mongo_divide_def stat_of_def group_ok_def)

lemma project_all_ok: "list_all group_ok gs \<Longrightarrow> project_all gs = Inr (map stat_of gs)"
  by (induction gs) (auto simp: project_group_ok)

lemma categoryStats_ok:
  "categoryStats store = Inr (map stat_of (sort_by_count_desc (group_by_category store)))"
  by (simp add: categoryStats_def project_all_ok sort_by_count_desc_ok group_by_category_ok)

lemma round_half_even_bounds:
  "of_int a \<le> y \<Longrightarrow> y \<le> of_int b \<Longrightarrow> a \<le> round_half_even y \<and> round_half_even y \<le> b"
proof -
  assume l: "of_int a \<le> y" and u: "y \<le> of_int b"
  have fl: "a \<le> \<lfloor>y\<rfloor>" using l by (simp add: le_floor_iff)
  have fu: "\<lfloor>y\<rfloor> \<le> b" using u by (simp add: floor_le_iff)
  have step: "y - of_int \<lfloor>y\<rfloor> \<noteq> 0 \<Longrightarrow> \<lfloor>y\<rfloor> + 1 \<le> b"
  proof -
    assume "y - of_int \<lfloor>y\<rfloor> \<noteq> 0"
    then have "of_int \<lfloor>y\<rfloor> < y" using of_int_floor_le [of y] by linarith
    then have "of_int \<lfloor>y\<rfloor> < (of_int b :: real)" using u by linarith
    then show ?thesis by simp
  qed
  show ?thesis
    using fl fu step by (auto simp: round_half_even_def Let_def)
qed

lemma mongo_round2_percent:
  "0 \<le> x \<Longrightarrow> x \<le> 100 \<Longrightarrow> 0 \<le> mongo_round2 x \<and> mongo_round2 x \<le> 100"
proof -
  assume "0 \<le> x" "x \<le> 100"
  then have "of_int 0 \<le> x * 100" "x * 100 \<le> of_int 10000" by auto
  from round_half_even_bounds [OF this]
  have "0 \<le> round_half_even (x * 100)" "round_half_even (x * 100) \<le> 10000" by auto
  then have "(0::real) \<le> of_int (round_half_even (x * 100))"
    "real_of_int (round_half_even (x * 100)) \<le> 10000" by linarith+
  then show ?thesis by (simp add: mongo_round2_def)
qed

lemma stat_of_percentage:
  "group_ok g \<Longrightarrow> 0 \<le> cs_inStockPercentage (stat_of g) \<and> cs_inStockPercentage (stat_of g) \<le> 100"
proof -
  assume g: "group_ok g"
  then have c: "0 < real (g_count g)" and i: "real (g_inStockCount g) \<le> real (g_count g)"
    by (auto simp: group_ok_def)
  have "0 \<le> real (g_inStockCount g) / real (g_count g) * 100" by simp
  moreover have "real (g_inStockCount g) / real (g_count g) * 100 \<le> 100"
    using c i by (simp add: divide_le_eq)
  ultimately show ?thesis
    using mongo_round2_percent by (simp add: stat_of_def)
qed

text \<open>
  C9: every group of the per-category pipeline holds at least one document, so the
  division by the count never fails and the pipeline returns its statistics; each
  percentage in stock lies between 0 and 100.
\<close>

theorem category_groups_never_empty:
  "list_all (\<lambda>g. 1 \<le> g_count g) (group_by_category store) \<and>
   (\<exists>cats. categoryStats store = Inr cats \<and>
      list_all (\<lambda>c. 1 \<le> cs_count c \<and> 0 \<le> cs_inStockPercentage c \<and> cs_inStockPercentage c \<le> 100) cats)"
proof
  show "list_all (\<lambda>g. 1 \<le> g_count g) (group_by_category store)"
    using group_by_category_ok [of store] by (auto simp: list_all_iff group_ok_def)
  have "list_all group_ok (sort_by_count_desc (group_by_category store))"
    by (simp add: sort_by_count_desc_ok group_by_category_ok)
  then have "list_all (\<lambda>c. 1 \<le> cs_count c \<and> 0 \<le> cs_inStockPercentage c \<and> cs_inStockPercentage c \<le> 100)
      (map stat_of (sort_by_count_desc (group_by_category store)))"
    using stat_of_percentage by (auto simp: list_all_iff group_ok_def stat_of_def)
  then show "\<exists>cats. categoryStats store = Inr cats \<and>
      list_all (\<lambda>c. 1 \<le> cs_count c \<and> 0 \<le> cs_inStockPercentage c \<and> cs_inStockPercentage c \<le> 100) cats"
    by (simp add: categoryStats_ok)
qed

text \<open>
  C8: for every store the statistics succeed, the counts of the categories add up to the
  total number of products, and the categories are listed by count, largest first.
\<close>

theorem stats_category_counts:
  "\<exists>b. stats_route now store = (200, StatsOk b) \<and>
       sum_list (map cs_count (st_categories b)) = ss_totalProducts (st_summary b) \<and>
       sorted_wrt (\<lambda>a b. b \<le> a) (map cs_count (st_categories b))"
proof -
  let ?gs = "sort_by_count_desc (group_by_category store)"
  have m: "map cs_count (map stat_of ?gs) = map g_count ?gs"
    by (simp add: stat_of_def)
  have s: "sum_list (map cs_count (map stat_of ?gs)) = length store"
    unfolding m by (simp add: sort_by_count_desc_def sort_key_sum group_by_category_count)
  have d: "sorted_wrt (\<lambda>a b. b \<le> a) (map cs_count (map stat_of ?gs))"
    unfolding m by (rule sorted_desc_counts)
  show ?thesis
    using s d by (simp add: stats_route_def categoryStats_ok Let_def)
qed

end
